theory Spec2Isabelle
  imports Main "HOL-Library.Sublist"
begin

section \<open>Strings\<close>

text \<open>
  Python's \<open>str\<close> is a sequence of code points; here a string is a \<open>char list\<close> and a
  \<open>char\<close> stands for one code point in the range U+0000 .. U+00FF. \<open>len\<close> is
  \<open>length\<close>, and an empty string is the only falsy one.
\<close>

definition code_point :: "char \<Rightarrow> nat" where
  "code_point c = of_char c"

text \<open>\<open>str.isspace\<close> on one code point, for the range above.\<close>

definition isspace :: "char \<Rightarrow> bool" where
  "isspace c = (let n = code_point c in
     (9 \<le> n \<and> n \<le> 13) \<or> (28 \<le> n \<and> n \<le> 32) \<or> n = 133 \<or> n = 160)"

text \<open>\<open>s.strip()\<close>: whitespace removed at both ends.\<close>

definition py_strip :: "string \<Rightarrow> string" where
  "py_strip s = rev (dropWhile isspace (rev (dropWhile isspace s)))"

text \<open>\<open>c.lower()\<close> on one code point: A-Z, and the upper-case letters of U+00C0 .. U+00DE.\<close>

definition lower_char :: "char \<Rightarrow> char" where
  "lower_char c = (let n = code_point c in
     if (65 \<le> n \<and> n \<le> 90) \<or> (192 \<le> n \<and> n \<le> 222 \<and> n \<noteq> 215)
     then char_of (n + 32) else c)"

definition lower :: "string \<Rightarrow> string" where
  "lower s = map lower_char s"

text \<open>\<open>sub in s\<close> on strings: \<open>sub\<close> occurs in \<open>s\<close> as a contiguous block.\<close>

fun str_contains :: "string \<Rightarrow> string \<Rightarrow> bool" where
  "str_contains sub [] = (sub = [])"
| "str_contains sub (c # cs) = (prefix sub (c # cs) \<or> str_contains sub cs)"

text \<open>\<open>sep.join(parts)\<close>.\<close>

fun join :: "string \<Rightarrow> string list \<Rightarrow> string" where
  "join sep [] = []"
| "join sep [p] = p"
| "join sep (p # q # ps) = p @ sep @ join sep (q # ps)"

text \<open>\<open>str(n)\<close> for a non-negative integer: its decimal digits.\<close>

fun str_of_nat :: "nat \<Rightarrow> string" where
  "str_of_nat n =
     (if n < 10 then [char_of (48 + n)]
      else str_of_nat (n div 10) @ [char_of (48 + n mod 10)])"

declare str_of_nat.simps [simp del]

section \<open>The source classifier\<close>

datatype source = Southcn | Ycwb | Chinanews | Unknown

text \<open>The exceptions that reach the caller of the crawler's pure functions.\<close>

datatype py_error = ValueError string

text \<open>
  \<open>urlparse(url).netloc\<close> is the standard library's, not the crawler's. It is modelled
  after \<open>urllib.parse.urlsplit\<close>: leading C0 control characters and spaces are dropped,
  tab, carriage return and line feed are removed everywhere, a scheme (a letter followed by
  letters, digits, \<open>+\<close>, \<open>-\<close>, \<open>.\<close> up to the first colon) is split off, and when the
  rest starts with \<open>//\<close> the network location runs up to the first \<open>/\<close>, \<open>?\<close> or
  \<open>#\<close>. A network location with one square bracket and not the other raises
  \<open>ValueError\<close>; with both, the bracketed host is validated as an IP literal, a check
  that differs between library versions and is the parameter \<open>ip_literal_ok\<close>.
\<close>

definition isalpha_ascii :: "char \<Rightarrow> bool" where
  "isalpha_ascii c = (let n = code_point c in (65 \<le> n \<and> n \<le> 90) \<or> (97 \<le> n \<and> n \<le> 122))"

definition scheme_char :: "char \<Rightarrow> bool" where
  "scheme_char c = (let n = code_point c in
     isalpha_ascii c \<or> (48 \<le> n \<and> n \<le> 57) \<or> c \<in> set ''+-.'')"

definition strip_scheme :: "string \<Rightarrow> string" where
  "strip_scheme url =
     (let pre = takeWhile (\<lambda>c. c \<noteq> CHR '':'') url in
      if length pre < length url \<and> pre \<noteq> [] \<and> isalpha_ascii (hd url) \<and> list_all scheme_char pre
      then drop (length pre + 1) url else url)"

definition bracketed_host :: "string \<Rightarrow> string" where
  "bracketed_host netloc =
     takeWhile (\<lambda>c. c \<noteq> CHR '']'') (drop 1 (dropWhile (\<lambda>c. c \<noteq> CHR ''['') netloc))"

definition urlparse_netloc :: "(string \<Rightarrow> bool) \<Rightarrow> string \<Rightarrow> py_error + string" where
  "urlparse_netloc ip_literal_ok url =
     (let url1 = dropWhile (\<lambda>c. code_point c \<le> 32) url;
          url2 = filter (\<lambda>c. code_point c \<notin> {9, 10, 13}) url1;
          url3 = strip_scheme url2
      in if take 2 url3 = ''//'' then
           (let netloc = takeWhile (\<lambda>c. c \<notin> set ''/?#'') (drop 2 url3);
                has_open = CHR ''['' \<in> set netloc;
                has_close = CHR '']'' \<in> set netloc
            in if (has_open \<and> \<not> has_close) \<or> (has_close \<and> \<not> has_open)
               then Inl (ValueError ''Invalid IPv6 URL'')
               else if has_open \<and> has_close \<and> \<not> ip_literal_ok (bracketed_host netloc)
               then Inl (ValueError ''Invalid IP literal'')
               else Inr netloc)
         else Inr [])"

text \<open>
  \<open>identify_source\<close>: the network location, lower-cased, is tested against the three
  names in order. There is no \<open>try\<close> around \<open>urlparse\<close>, so its exception leaves the
  function.
\<close>

definition identify_source :: "(string \<Rightarrow> bool) \<Rightarrow> string \<Rightarrow> py_error + source" where
  "identify_source ip_literal_ok url =
     (case urlparse_netloc ip_literal_ok url of
        Inl e \<Rightarrow> Inl e
      | Inr netloc \<Rightarrow>
          (let domain = lower netloc in
           if str_contains ''southcn.com'' domain \<or> str_contains ''southcn'' domain then Inr Southcn
           else if str_contains ''ycwb.com'' domain then Inr Ycwb
           else if str_contains ''chinanews.com.cn'' domain then Inr Chinanews
           else Inr Unknown))"



section \<open>The parsed document\<close>

text \<open>
  A \<open>BeautifulSoup\<close> object is a tree of tags and strings. A tag carries its name, its
  \<open>id\<close> attribute if it has one, the tokens of its \<open>class\<close> attribute, and its contents;
  no other attribute is inspected by the crawler. \<open>Text\<close> is a plain
  \<open>NavigableString\<close>; \<open>Special\<close> stands for the string kinds that \<open>get_text\<close> leaves
  out: comments, declarations, processing instructions and, in the versions of the library
  that give them a class of their own, the strings inside \<open>script\<close>, \<open>style\<close> and
  \<open>template\<close> tags. The tree is what the parser built; parsing itself is outside the
  crawler.
\<close>

datatype node =
    Element (tag: string) (ident: "string option") (classes: "string list") (contents: "node list")
  | Text string
  | Special string

text \<open>
  The queries the crawler makes: CSS selectors of the shapes \<open>tag\<close>, \<open>tag.class\<close>,
  \<open>tag[class*="part"]\<close> and \<open>[class*="part"]\<close> for \<open>select_one\<close>, and a tag name with
  an optional \<open>id\<close> or \<open>class\<close> filter for \<open>find\<close>.
\<close>

datatype cond = Has_class string | Class_contains string | Has_id string

datatype selector = Sel (sel_tag: "string option") (sel_cond: "cond option")

fun cond_holds :: "cond \<Rightarrow> string option \<Rightarrow> string list \<Rightarrow> bool" where
  "cond_holds (Has_class c) i cs = (c \<in> set cs)"
| "cond_holds (Class_contains part) i cs = str_contains part (join '' '' cs)"
| "cond_holds (Has_id x) i cs = (i = Some x)"

fun matches :: "selector \<Rightarrow> node \<Rightarrow> bool" where
  "matches (Sel t c) (Element name i cs ks) =
     ((case t of None \<Rightarrow> True | Some n \<Rightarrow> n = name) \<and>
      (case c of None \<Rightarrow> True | Some q \<Rightarrow> cond_holds q i cs))"
| "matches s (Text v) = False"
| "matches s (Special v) = False"

text \<open>
  A tag found by a query is a reference into the tree: here the path of child positions
  from the top. \<open>first_match\<close> is the first matching tag in document order.
\<close>

type_synonym path = "nat list"

fun shift :: "path \<Rightarrow> path" where
  "shift [] = []"
| "shift (i # p) = Suc i # p"

fun first_match :: "selector \<Rightarrow> node list \<Rightarrow> path option" where
  "first_match s [] = None"
| "first_match s (Element name i cs ks # ns) =
     (if matches s (Element name i cs ks) then Some [0]
      else (case first_match s ks of
              Some p \<Rightarrow> Some (0 # p)
            | None \<Rightarrow> map_option shift (first_match s ns)))"
| "first_match s (Text v # ns) = map_option shift (first_match s ns)"
| "first_match s (Special v # ns) = map_option shift (first_match s ns)"

fun node_at :: "node list \<Rightarrow> path \<Rightarrow> node option" where
  "node_at ns [] = None"
| "node_at [] (i # p) = None"
| "node_at (n # ns) (0 # p) =
     (if p = [] then Some n
      else (case n of Element name i cs ks \<Rightarrow> node_at ks p | _ \<Rightarrow> None))"
| "node_at (n # ns) (Suc i # p) = node_at ns (i # p)"

text \<open>
  \<open>for t in element([names]): t.decompose()\<close>: every descendant tag whose name is in
  the list is removed from the tree, with everything below it. \<open>strip\<close> does this to a
  list of contents; \<open>decompose_in\<close> does it below the tag at a path, in the tree itself.
\<close>

fun strip :: "string list \<Rightarrow> node list \<Rightarrow> node list" where
  "strip names [] = []"
| "strip names (Element name i cs ks # ns) =
     (if name \<in> set names then strip names ns
      else Element name i cs (strip names ks) # strip names ns)"
| "strip names (Text v # ns) = Text v # strip names ns"
| "strip names (Special v # ns) = Special v # strip names ns"

fun decompose_in :: "string list \<Rightarrow> path \<Rightarrow> node list \<Rightarrow> node list" where
  "decompose_in names [] ns = ns"
| "decompose_in names (i # p) [] = []"
| "decompose_in names (0 # p) (Element name i cs ks # ns) =
     (if p = [] then Element name i cs (strip names ks) # ns
      else Element name i cs (decompose_in names p ks) # ns)"
| "decompose_in names (0 # p) (Text v # ns) = Text v # ns"
| "decompose_in names (0 # p) (Special v # ns) = Special v # ns"
| "decompose_in names (Suc i # p) (n # ns) = n # decompose_in names (i # p) ns"

text \<open>
  \<open>element.get_text(separator=sep, strip=True)\<close>: the plain strings below the tag in
  document order, each stripped, the empty ones dropped, joined by the separator.
\<close>

fun strings :: "node list \<Rightarrow> string list" where
  "strings [] = []"
| "strings (Element name i cs ks # ns) = strings ks @ strings ns"
| "strings (Text v # ns) = v # strings ns"
| "strings (Special v # ns) = strings ns"

definition get_text :: "string \<Rightarrow> node \<Rightarrow> string" where
  "get_text sep n =
     (case n of
        Element name i cs ks \<Rightarrow> join sep (filter (\<lambda>s. s \<noteq> []) (map py_strip (strings ks)))
      | Text v \<Rightarrow> py_strip v
      | Special v \<Rightarrow> py_strip v)"

text \<open>
  The soup as the extraction functions see it: the tree, which \<open>decompose\<close> changes in
  place, and the lookups made on it so far, in order.
\<close>

datatype lookup = Select_one selector | Find selector

record soup =
  tree :: "node list"
  lookups :: "lookup list"

definition select_one :: "selector \<Rightarrow> soup \<Rightarrow> path option \<times> soup" where
  "select_one s sp = (first_match s (tree sp), sp\<lparr>lookups := lookups sp @ [Select_one s]\<rparr>)"

definition find_tag :: "selector \<Rightarrow> soup \<Rightarrow> path option \<times> soup" where
  "find_tag s sp = (first_match s (tree sp), sp\<lparr>lookups := lookups sp @ [Find s]\<rparr>)"

definition decompose_all :: "string list \<Rightarrow> path \<Rightarrow> soup \<Rightarrow> soup" where
  "decompose_all names p sp = sp\<lparr>tree := decompose_in names p (tree sp)\<rparr>"

definition text_of :: "string \<Rightarrow> path \<Rightarrow> soup \<Rightarrow> string" where
  "text_of sep p sp = (case node_at (tree sp) p of Some n \<Rightarrow> get_text sep n | None \<Rightarrow> [])"

text \<open>\<open>a or b or c\<close> over lookups: the first that finds a tag; later ones are not made.\<close>

fun find_first_of :: "selector list \<Rightarrow> soup \<Rightarrow> path option \<times> soup" where
  "find_first_of [] sp = (None, sp)"
| "find_first_of (s # ss) sp =
     (case find_tag s sp of
        (Some p, sp1) \<Rightarrow> (Some p, sp1)
      | (None, sp1) \<Rightarrow> find_first_of ss sp1)"

section \<open>The content extractor\<close>

definition newline :: string where
  "newline = [char_of (10::nat)]"

definition specific_strip :: "string list" where
  "specific_strip = [''script'', ''style'', ''nav'', ''footer'', ''header'']"

definition generic_strip :: "string list" where
  "generic_strip = [''script'', ''style'', ''nav'', ''footer'', ''header'', ''aside'']"

text \<open>
  The body of the selector loop, up to the length test: look the selector up; if a tag is
  found, strip it in place and take its text.
\<close>

definition try_selector :: "selector \<Rightarrow> soup \<Rightarrow> string option \<times> soup" where
  "try_selector s sp =
     (case select_one s sp of
        (None, sp1) \<Rightarrow> (None, sp1)
      | (Some p, sp1) \<Rightarrow>
          (let sp2 = decompose_all specific_strip p sp1
           in (Some (text_of newline p sp2), sp2)))"

text \<open>The loop \<open>for selector in selectors\<close> with its \<open>break\<close>.\<close>

fun scan_selectors :: "selector list \<Rightarrow> string \<Rightarrow> soup \<Rightarrow> string \<times> soup" where
  "scan_selectors [] content sp = (content, sp)"
| "scan_selectors (s # ss) content sp =
     (case try_selector s sp of
        (None, sp1) \<Rightarrow> scan_selectors ss content sp1
      | (Some c, sp1) \<Rightarrow>
          (if length c > 200 then (c, sp1) else scan_selectors ss c sp1))"

text \<open>Strip the tag at a path with the longer list and take its text.\<close>

definition take_region :: "path \<Rightarrow> soup \<Rightarrow> string \<times> soup" where
  "take_region p sp =
     (let sp1 = decompose_all generic_strip p sp in (text_of newline p sp1, sp1))"

text \<open>
  The second tier of the three source-specific extractors:
  \<open>soup.find('main') or soup.find('article') or soup.find('div', {'id': 'content'})\<close>.
\<close>

definition main_regions :: "selector list" where
  "main_regions =
     [Sel (Some ''main'') None, Sel (Some ''article'') None,
      Sel (Some ''div'') (Some (Has_id ''content''))]"

definition main_fallback :: "string \<Rightarrow> soup \<Rightarrow> string \<times> soup" where
  "main_fallback content sp =
     (if content = [] \<or> length content < 200 then
        (case find_first_of main_regions sp of
           (None, sp1) \<Rightarrow> (content, sp1)
         | (Some p, sp1) \<Rightarrow> take_region p sp1)
      else (content, sp))"

definition southcn_selectors :: "selector list" where
  "southcn_selectors =
     [Sel (Some ''div'') (Some (Has_class ''article-content'')),
      Sel (Some ''div'') (Some (Has_class ''content'')),
      Sel (Some ''div'') (Some (Has_class ''article-body'')),
      Sel (Some ''div'') (Some (Class_contains ''content'')),
      Sel (Some ''div'') (Some (Class_contains ''article'')),
      Sel (Some ''article'') None,
      Sel (Some ''div'') (Some (Has_class ''text''))]"

definition ycwb_selectors :: "selector list" where
  "ycwb_selectors =
     [Sel (Some ''div'') (Some (Has_class ''article-content'')),
      Sel (Some ''div'') (Some (Has_class ''content'')),
      Sel (Some ''div'') (Some (Has_class ''article-body'')),
      Sel (Some ''div'') (Some (Class_contains ''content'')),
      Sel (Some ''div'') (Some (Class_contains ''article'')),
      Sel (Some ''article'') None,
      Sel (Some ''div'') (Some (Has_class ''text'')),
      Sel (Some ''div'') (Some (Has_class ''main-content''))]"

definition chinanews_selectors :: "selector list" where
  "chinanews_selectors =
     [Sel (Some ''div'') (Some (Has_class ''left_zw'')),
      Sel (Some ''div'') (Some (Has_class ''content'')),
      Sel (Some ''div'') (Some (Has_class ''article-content'')),
      Sel (Some ''div'') (Some (Class_contains ''content'')),
      Sel (Some ''div'') (Some (Class_contains ''article'')),
      Sel (Some ''article'') None,
      Sel (Some ''div'') (Some (Has_class ''text''))]"

text \<open>
  \<open>extract_southcn\<close>, \<open>extract_ycwb\<close> and \<open>extract_chinanews\<close> are the same code over
  three selector lists: the loop from an empty \<open>content\<close>, then the second tier.
\<close>

definition extract_with :: "selector list \<Rightarrow> soup \<Rightarrow> string \<times> soup" where
  "extract_with selectors sp =
     (case scan_selectors selectors [] sp of (content, sp1) \<Rightarrow> main_fallback content sp1)"

definition extract_southcn :: "soup \<Rightarrow> string \<times> soup" where
  "extract_southcn = extract_with southcn_selectors"

definition extract_ycwb :: "soup \<Rightarrow> string \<times> soup" where
  "extract_ycwb = extract_with ycwb_selectors"

definition extract_chinanews :: "soup \<Rightarrow> string \<times> soup" where
  "extract_chinanews = extract_with chinanews_selectors"

text \<open>
  \<open>extract_generic\<close>: the first \<open>article\<close> tag, then, when its text is empty or shorter
  than 200,
  \<open>soup.find('main') or soup.find('div', {'id': 'content'}) or soup.find('div', {'class': 'content'})\<close>.
\<close>

definition generic_regions :: "selector list" where
  "generic_regions =
     [Sel (Some ''main'') None, Sel (Some ''div'') (Some (Has_id ''content'')),
      Sel (Some ''div'') (Some (Has_class ''content''))]"

definition extract_generic :: "soup \<Rightarrow> string \<times> soup" where
  "extract_generic sp =
     (case find_tag (Sel (Some ''article'') None) sp of (article, sp1) \<Rightarrow>
        (case (case article of None \<Rightarrow> ([], sp1) | Some p \<Rightarrow> take_region p sp1) of
           (content, sp2) \<Rightarrow>
             (if content = [] \<or> length content < 200 then
                (case find_first_of generic_regions sp2 of
                   (None, sp3) \<Rightarrow> (content, sp3)
                 | (Some p, sp3) \<Rightarrow> take_region p sp3)
              else (content, sp2))))"

text \<open>The dispatch on the source in \<open>crawl_article\<close>.\<close>

fun extract_content :: "source \<Rightarrow> soup \<Rightarrow> string \<times> soup" where
  "extract_content Southcn sp = extract_southcn sp"
| "extract_content Ycwb sp = extract_ycwb sp"
| "extract_content Chinanews sp = extract_chinanews sp"
| "extract_content Unknown sp = extract_generic sp"

subsection \<open>Notions used to state the extractor's properties\<close>

text \<open>The candidate selectors registered for a source; an unknown source has none.\<close>

definition selectors_of :: "source \<Rightarrow> selector list" where
  "selectors_of src =
     (case src of Southcn \<Rightarrow> southcn_selectors | Ycwb \<Rightarrow> ycwb_selectors
      | Chinanews \<Rightarrow> chinanews_selectors | Unknown \<Rightarrow> [])"


text \<open>Every place the extractor for a source looks for content.\<close>

definition regions_of :: "source \<Rightarrow> selector list" where
  "regions_of src =
     (case src of
        Unknown \<Rightarrow> Sel (Some ''article'') None # generic_regions
      | _ \<Rightarrow> selectors_of src @ main_regions)"

text \<open>The soup after further lookups.\<close>

definition logged :: "soup \<Rightarrow> lookup list \<Rightarrow> soup" where
  "logged sp ls = sp\<lparr>lookups := lookups sp @ ls\<rparr>"



section \<open>Title and metadata\<close>

definition title_selectors :: "selector list" where
  "title_selectors =
     [Sel (Some ''h1'') None,
      Sel (Some ''title'') None,
      Sel (Some ''h1'') (Some (Has_class ''article-title'')),
      Sel (Some ''div'') (Some (Has_class ''title'')),
      Sel (Some ''h1'') (Some (Class_contains ''title''))]"

text \<open>The loop of \<open>extract_title\<close>: the first tag whose stripped text is longer than 5.\<close>

fun scan_title :: "selector list \<Rightarrow> soup \<Rightarrow> string \<times> soup" where
  "scan_title [] sp = ([], sp)"
| "scan_title (s # ss) sp =
     (case select_one s sp of
        (None, sp1) \<Rightarrow> scan_title ss sp1
      | (Some p, sp1) \<Rightarrow>
          (let t = text_of [] p sp1
           in if t \<noteq> [] \<and> length t > 5 then (t, sp1) else scan_title ss sp1))"

definition extract_title :: "soup \<Rightarrow> string \<times> soup" where
  "extract_title sp = scan_title title_selectors sp"

definition author_selectors :: "selector list" where
  "author_selectors =
     [Sel (Some ''span'') (Some (Has_class ''author'')),
      Sel (Some ''div'') (Some (Has_class ''author'')),
      Sel (Some ''p'') (Some (Has_class ''author'')),
      Sel None (Some (Class_contains ''author'')),
      Sel None (Some (Class_contains ''byline''))]"

definition date_selectors :: "selector list" where
  "date_selectors =
     [Sel (Some ''span'') (Some (Has_class ''date'')),
      Sel (Some ''div'') (Some (Has_class ''date'')),
      Sel (Some ''p'') (Some (Has_class ''date'')),
      Sel (Some ''time'') None,
      Sel None (Some (Class_contains ''date'')),
      Sel None (Some (Class_contains ''time''))]"

text \<open>The two loops of \<open>extract_metadata\<close>: the text of the first tag found, then \<open>break\<close>.\<close>

fun first_text :: "selector list \<Rightarrow> soup \<Rightarrow> string option \<times> soup" where
  "first_text [] sp = (None, sp)"
| "first_text (s # ss) sp =
     (case select_one s sp of
        (None, sp1) \<Rightarrow> first_text ss sp1
      | (Some p, sp1) \<Rightarrow> (Some (text_of [] p sp1), sp1))"

definition extract_metadata :: "soup \<Rightarrow> string \<Rightarrow> (string \<rightharpoonup> string) \<times> soup" where
  "extract_metadata sp u =
     (let m0 = [''author'' \<mapsto> [], ''publish_date'' \<mapsto> [], ''source_url'' \<mapsto> u]
      in case first_text author_selectors sp of (author, sp1) \<Rightarrow>
           (let m1 = (case author of None \<Rightarrow> m0 | Some t \<Rightarrow> m0(''author'' \<mapsto> t))
            in case first_text date_selectors sp1 of (date, sp2) \<Rightarrow>
                 ((case date of None \<Rightarrow> m1 | Some t \<Rightarrow> m1(''publish_date'' \<mapsto> t)), sp2)))"

section \<open>The result assembler\<close>

text \<open>
  What \<open>requests.get\<close> followed by \<open>raise_for_status\<close> can do: hand back a response
  with its text, raise \<open>Timeout\<close>, raise another \<open>RequestException\<close> (an HTTP error
  status among them), or raise anything else; the exceptions carry their message.
\<close>

datatype get_outcome =
    Response string
  | Timeout
  | Request_exception string
  | Other_exception string

text \<open>
  The world outside the crawler: the network, the HTML parser behind
  \<open>BeautifulSoup(html, 'html.parser')\<close> (\<open>Inl\<close> is an exception with its message), and
  the IP-literal check of \<open>urlparse\<close>.
\<close>

record env =
  http_get :: "string \<Rightarrow> get_outcome"
  html_parser :: "string \<Rightarrow> string + node list"
  ip_literal_ok :: "string \<Rightarrow> bool"

definition fetch_url :: "env \<Rightarrow> string \<Rightarrow> bool \<times> string" where
  "fetch_url e u =
     (case http_get e u of
        Response text \<Rightarrow> (True, text)
      | Timeout \<Rightarrow> (False, ''Request timeout'')
      | Request_exception m \<Rightarrow> (False, ''Request error: '' @ m)
      | Other_exception m \<Rightarrow> (False, ''Unexpected error: '' @ m))"

record extraction_result =
  url :: string
  success :: bool
  source :: source
  title :: string
  content :: string
  content_length :: nat
  metadata :: "string \<rightharpoonup> string"
  error :: "string option"

text \<open>The calls \<open>crawl_article\<close> makes outside itself, in order.\<close>

datatype call = Http_get string | Parse_html string | Soup_lookup lookup

text \<open>
  \<open>crawl_article\<close>. \<open>identify_source\<close> runs while the result is first built, so what it
  raises leaves \<open>crawl_article\<close> before the fetch. Console output is not modelled.
\<close>

definition crawl_article :: "env \<Rightarrow> string \<Rightarrow> py_error + extraction_result \<times> call list" where
  "crawl_article e u =
     (case identify_source (ip_literal_ok e) u of
        Inl err \<Rightarrow> Inl err
      | Inr src \<Rightarrow>
          (let result = \<lparr>url = u, success = False, source = src, title = [], content = [],
                         content_length = 0, metadata = Map.empty, error = None\<rparr>
           in case fetch_url e u of
                (False, msg) \<Rightarrow> Inr (result\<lparr>error := Some msg\<rparr>, [Http_get u])
              | (True, html_content) \<Rightarrow>
                  (case html_parser e html_content of
                     Inl m \<Rightarrow>
                       Inr (result\<lparr>error := Some (''HTML parsing error: '' @ m)\<rparr>,
                            [Http_get u, Parse_html html_content])
                   | Inr t \<Rightarrow>
                       (case extract_title \<lparr>tree = t, lookups = []\<rparr> of (ti, sp1) \<Rightarrow>
                        case extract_content src sp1 of (co, sp2) \<Rightarrow>
                        case extract_metadata sp2 u of (md, sp3) \<Rightarrow>
                          (let result1 = result\<lparr>title := ti, content := co, metadata := md,
                                                content_length := length co\<rparr>;
                               result2 =
                                 (if content result1 \<noteq> [] \<and> length (content result1) > 100
                                  then result1\<lparr>success := True\<rparr>
                                  else result1\<lparr>error := Some (''Extracted content too short (''
                                         @ str_of_nat (content_length result1) @ '' chars)'')\<rparr>)
                           in Inr (result2,
                                   [Http_get u, Parse_html html_content]
                                   @ map Soup_lookup (lookups sp3)))))))"

section \<open>Example inputs\<close>

definition southcn_url :: string where
  "southcn_url = ''https://xapp.southcn.com/node_2ea31fe5fd/b150021036.shtml''"

definition ycwb_url :: string where
  "ycwb_url = ''https://news.ycwb.com/ikinvjktjn/content_53731774.htm''"

definition other_url :: string where
  "other_url = ''https://example.org/news/1.html''"

text \<open>A world in which every fetch and every parse has the same outcome.\<close>

definition fixed_env :: "get_outcome \<Rightarrow> string + node list \<Rightarrow> env" where
  "fixed_env outcome parsed =
     \<lparr>http_get = (\<lambda>u. outcome), html_parser = (\<lambda>h. parsed), ip_literal_ok = (\<lambda>h. True)\<rparr>"

definition fresh :: "node list \<Rightarrow> soup" where
  "fresh t = \<lparr>tree = t, lookups = []\<rparr>"

text \<open>
  The example pages, each the tree of the markup
  \<^verbatim>\<open><html><body>...</body></html>\<close> around the body given; \<open>filler n\<close> is a text of
  \<open>n\<close> characters.
\<close>

definition page :: "node list \<Rightarrow> node list" where
  "page body = [Element ''html'' None [] [Element ''body'' None [] body]]"

definition filler :: "nat \<Rightarrow> string" where
  "filler n = replicate n CHR ''a''"

text \<open>\<^verbatim>\<open><article>(120 characters)</article>\<close>\<close>

definition article_page :: "node list" where
  "article_page = page [Element ''article'' None [] [Text (filler 120)]]"

text \<open>\<^verbatim>\<open><p>hello</p>\<close>\<close>

definition plain_page :: "node list" where
  "plain_page = page [Element ''p'' None [] [Text ''hello'']]"

text \<open>\<^verbatim>\<open><div class="text">(120 characters)</div>\<close>\<close>

definition text_div_page :: "node list" where
  "text_div_page = page [Element ''div'' None [''text''] [Text (filler 120)]]"

text \<open>
  \<^verbatim>\<open><div class="article-content">(200 characters)</div><div class="text">short</div>\<close>
\<close>

definition boundary_page :: "node list" where
  "boundary_page =
     page [Element ''div'' None [''article-content''] [Text (filler 200)],
           Element ''div'' None [''text''] [Text ''short'']]"

text \<open>\<^verbatim>\<open><div class="content"><script>var x;</script>(201 characters)</div>\<close>\<close>

definition long_page :: "node list" where
  "long_page =
     page [Element ''div'' None [''content'']
             [Element ''script'' None [] [Special ''var x;''], Text (filler 201)]]"

text \<open>\<^verbatim>\<open><div class="content">short</div><main>main text</main>\<close>\<close>

definition short_page :: "node list" where
  "short_page =
     page [Element ''div'' None [''content''] [Text ''short''],
           Element ''main'' None [] [Text ''main text'']]"



text \<open>\<^verbatim>\<open><main>main text</main><article>(200 characters)</article>\<close>\<close>

definition both_page :: "node list" where
  "both_page =
     page [Element ''main'' None [] [Text ''main text''],
           Element ''article'' None [] [Text (filler 200)]]"

section \<open>Auxiliary facts\<close>

subsection \<open>Substrings\<close>




subsection \<open>The three ways a crawl ends\<close>

lemma extract_metadata_keys:
  "dom (fst (extract_metadata sp u)) = {''author'', ''publish_date'', ''source_url''}
   \<and> fst (extract_metadata sp u) ''source_url'' = Some u"
  by (auto simp: extract_metadata_def Let_def split: prod.splits option.splits if_splits)

lemma crawl_raises:
  "identify_source (ip_literal_ok e) u = Inl err \<Longrightarrow> crawl_article e u = Inl err"
  by (simp add: crawl_article_def)

lemma crawl_fetch_failed:
  assumes "identify_source (ip_literal_ok e) u = Inr src" and "fetch_url e u = (False, msg)"
  shows "crawl_article e u =
           Inr (\<lparr>url = u, success = False, source = src, title = [], content = [],
                 content_length = 0, metadata = Map.empty, error = Some msg\<rparr>,
                [Http_get u])"
  using assms by (simp add: crawl_article_def)

lemma crawl_parse_failed:
  assumes "identify_source (ip_literal_ok e) u = Inr src" and "fetch_url e u = (True, html)"
    and "html_parser e html = Inl m"
  shows "crawl_article e u =
           Inr (\<lparr>url = u, success = False, source = src, title = [], content = [],
                 content_length = 0, metadata = Map.empty,
                 error = Some (''HTML parsing error: '' @ m)\<rparr>,
                [Http_get u, Parse_html html])"
  using assms by (simp add: crawl_article_def)

lemma crawl_extracted:
  assumes "identify_source (ip_literal_ok e) u = Inr src" and "fetch_url e u = (True, html)"
    and "html_parser e html = Inr t"
    and "extract_title \<lparr>tree = t, lookups = []\<rparr> = (ti, sp1)"
    and "extract_content src sp1 = (co, sp2)"
    and "extract_metadata sp2 u = (md, sp3)"
  shows "crawl_article e u =
           Inr (\<lparr>url = u, success = (co \<noteq> [] \<and> length co > 100), source = src, title = ti,
                 content = co, content_length = length co, metadata = md,
                 error = (if co \<noteq> [] \<and> length co > 100 then None
                          else Some (''Extracted content too short ('' @ str_of_nat (length co)
                                     @ '' chars)''))\<rparr>,
                [Http_get u, Parse_html html] @ map Soup_lookup (lookups sp3))"
  using assms by (simp add: crawl_article_def)

lemma crawl_cases:
  obtains (raises) err where "identify_source (ip_literal_ok e) u = Inl err"
  | (fetch_failed) src msg where "identify_source (ip_literal_ok e) u = Inr src"
      "fetch_url e u = (False, msg)"
  | (parse_failed) src html m where "identify_source (ip_literal_ok e) u = Inr src"
      "fetch_url e u = (True, html)" "html_parser e html = Inl m"
  | (extracted) src html t ti sp1 co sp2 md sp3 where
      "identify_source (ip_literal_ok e) u = Inr src" "fetch_url e u = (True, html)"
      "html_parser e html = Inr t" "extract_title \<lparr>tree = t, lookups = []\<rparr> = (ti, sp1)"
      "extract_content src sp1 = (co, sp2)" "extract_metadata sp2 u = (md, sp3)"
proof (cases "identify_source (ip_literal_ok e) u")
  case (Inl err)
  then show ?thesis by (rule raises)
next
  case (Inr src)
  obtain ok body where f: "fetch_url e u = (ok, body)" by (cases "fetch_url e u")
  show ?thesis
  proof (cases ok)
    case False
    with Inr f show ?thesis by (auto intro: fetch_failed)
  next
    case True
    show ?thesis
    proof (cases "html_parser e body")
      case (Inl m)
      with Inr f True show ?thesis by (auto intro: parse_failed)
    next
      case p: (Inr t)
      obtain ti sp1 where 1: "extract_title \<lparr>tree = t, lookups = []\<rparr> = (ti, sp1)"
        by (cases "extract_title \<lparr>tree = t, lookups = []\<rparr>")
      obtain co sp2 where 2: "extract_content src sp1 = (co, sp2)"
        by (cases "extract_content src sp1")
      obtain md sp3 where 3: "extract_metadata sp2 u = (md, sp3)"
        by (cases "extract_metadata sp2 u")
      from Inr f True p 1 2 3 show ?thesis by (auto intro: extracted)
    qed
  qed
qed

lemma fetch_url_ok_iff: "fetch_url e u = (True, html) \<longleftrightarrow> http_get e u = Response html"
  by (auto simp: fetch_url_def split: get_outcome.splits)

lemma str_of_nat_0: "str_of_nat 0 = ''0''"
  by code_simp

subsection \<open>Lookups and the selector loop\<close>

lemma try_selector_lookups:
  "try_selector s sp = (r, sp1) \<Longrightarrow> lookups sp1 = lookups sp @ [Select_one s]"
  by (auto simp: try_selector_def select_one_def decompose_all_def Let_def split: option.splits)

lemma scan_append:
  "scan_selectors ss1 c sp = (c1, sp1) \<Longrightarrow> length c1 \<le> 200 \<Longrightarrow>
     scan_selectors (ss1 @ ss2) c sp = scan_selectors ss2 c1 sp1"
proof (induction ss1 arbitrary: c sp)
  case Nil
  then show ?case by simp
next
  case (Cons s ss1)
  obtain r sp' where t: "try_selector s sp = (r, sp')" by (cases "try_selector s sp")
  show ?case
  proof (cases r)
    case None
    with t Cons show ?thesis by simp
  next
    case (Some x)
    with t Cons.prems have "\<not> length x > 200" by (auto split: if_splits)
    with t Some Cons show ?thesis by simp
  qed
qed

lemma scan_lookups:
  "scan_selectors ss c sp = (c1, sp1) \<Longrightarrow> length c1 \<le> 200 \<Longrightarrow>
     lookups sp1 = lookups sp @ map Select_one ss"
proof (induction ss arbitrary: c sp)
  case Nil
  then show ?case by simp
next
  case (Cons s ss)
  obtain r sp' where t: "try_selector s sp = (r, sp')" by (cases "try_selector s sp")
  have l: "lookups sp' = lookups sp @ [Select_one s]" using t by (rule try_selector_lookups)
  show ?case
  proof (cases r)
    case None
    with t Cons.prems have "scan_selectors ss c sp' = (c1, sp1)" by simp
    from Cons.IH [OF this Cons.prems(2)] l show ?thesis by simp
  next
    case (Some x)
    with t Cons.prems have n: "\<not> length x > 200" by (auto split: if_splits)
    with t Some Cons.prems have "scan_selectors ss x sp' = (c1, sp1)" by simp
    from Cons.IH [OF this Cons.prems(2)] l show ?thesis by simp
  qed
qed


lemma scan_unmatched:
  "\<forall>s \<in> set ss. first_match s (tree sp) = None \<Longrightarrow>
     scan_selectors ss c sp = (c, sp\<lparr>lookups := lookups sp @ map Select_one ss\<rparr>)"
proof (induction ss arbitrary: sp)
  case Nil
  then show ?case by simp
next
  case (Cons s ss)
  from Cons.prems Cons.IH [of "sp\<lparr>lookups := lookups sp @ [Select_one s]\<rparr>"]
  show ?case by (simp add: try_selector_def select_one_def)
qed

lemma find_first_of_unmatched:
  "\<forall>s \<in> set ss. first_match s (tree sp) = None \<Longrightarrow>
     find_first_of ss sp = (None, sp\<lparr>lookups := lookups sp @ map Find ss\<rparr>)"
proof (induction ss arbitrary: sp)
  case Nil
  then show ?case by simp
next
  case (Cons s ss)
  from Cons.prems Cons.IH [of "sp\<lparr>lookups := lookups sp @ [Find s]\<rparr>"]
  show ?case by (simp add: find_tag_def)
qed





lemma extract_content_known:
  "src \<noteq> Unknown \<Longrightarrow> extract_content src sp = extract_with (selectors_of src) sp"
  by (cases src)
     (simp_all add: selectors_of_def extract_southcn_def extract_ycwb_def extract_chinanews_def)

lemma scan_title_tree: "tree (snd (scan_title ss sp)) = tree sp"
proof (induction ss arbitrary: sp)
  case Nil
  then show ?case by simp
next
  case (Cons s ss)
  from Cons [of "sp\<lparr>lookups := lookups sp @ [Select_one s]\<rparr>"]
  show ?case by (simp add: select_one_def Let_def split: option.splits)
qed

lemma extract_title_tree: "extract_title sp = (ti, sp1) \<Longrightarrow> tree sp1 = tree sp"
  using scan_title_tree [of title_selectors sp] by (simp add: extract_title_def)

lemma extract_nothing_found:
  assumes "\<forall>s \<in> set (regions_of src). first_match s (tree sp) = None"
  shows "fst (extract_content src sp) = []"
proof (cases "src = Unknown")
  case True
  with assms have a: "first_match (Sel (Some ''article'') None) (tree sp) = None"
    and g: "\<forall>s \<in> set generic_regions. first_match s (tree sp) = None"
    by (simp_all add: regions_of_def)
  from g have "find_first_of generic_regions (sp\<lparr>lookups := lookups sp @ [Find (Sel (Some ''article'') None)]\<rparr>)
       = (None, sp\<lparr>lookups := lookups sp @ [Find (Sel (Some ''article'') None)] @ map Find generic_regions\<rparr>)"
    using find_first_of_unmatched [of generic_regions "sp\<lparr>lookups := lookups sp @ [Find (Sel (Some ''article'') None)]\<rparr>"]
    by simp
  with a True show ?thesis by (simp add: extract_generic_def find_tag_def)
next
  case False
  with assms have s: "\<forall>s \<in> set (selectors_of src). first_match s (tree sp) = None"
    and m: "\<forall>s \<in> set main_regions. first_match s (tree sp) = None"
    by (cases src; simp add: regions_of_def)+
  have 1: "scan_selectors (selectors_of src) [] sp = ([], sp\<lparr>lookups := lookups sp @ map Select_one (selectors_of src)\<rparr>)"
    using s by (rule scan_unmatched)
  have 2: "find_first_of main_regions (sp\<lparr>lookups := lookups sp @ map Select_one (selectors_of src)\<rparr>)
     = (None, sp\<lparr>lookups := lookups sp @ map Select_one (selectors_of src) @ map Find main_regions\<rparr>)"
    using find_first_of_unmatched [of main_regions "sp\<lparr>lookups := lookups sp @ map Select_one (selectors_of src)\<rparr>"] m
    by simp
  from False 1 2 show ?thesis
    by (simp add: extract_content_known extract_with_def main_fallback_def)
qed

subsection \<open>What extraction does to the tree\<close>

















subsection \<open>The extracted text depends on the tree only\<close>









section \<open>The claims\<close>

text \<open>
  C1. For every result \<open>crawl_article\<close> produces, \<open>success\<close> is true if and only if
  \<open>content\<close> is non-empty and \<open>content_length\<close> exceeds 100 (equivalently, if and only
  if \<open>content_length\<close> exceeds 100); whenever \<open>success\<close> is false, \<open>error\<close> holds the
  reason: the message of the failed fetch, the message of the failed parse, or the
  content-too-short message.
\<close>

theorem crawl_success_iff:
  assumes "crawl_article e u = Inr (r, calls)"
  shows "(success r \<longleftrightarrow> content r \<noteq> [] \<and> content_length r > 100)
       \<and> (success r \<longleftrightarrow> content_length r > 100)
       \<and> (\<not> success r \<longrightarrow>
            (\<exists>msg. error r = Some msg \<and>
               (fetch_url e u = (False, msg)
                \<or> (\<exists>html m. fetch_url e u = (True, html) \<and> html_parser e html = Inl m
                       \<and> msg = ''HTML parsing error: '' @ m)
                \<or> msg = ''Extracted content too short ('' @ str_of_nat (content_length r) @ '' chars)'')))"
proof (cases rule: crawl_cases [of e u])
  case (raises err)
  with assms show ?thesis by (simp add: crawl_raises)
next
  case (fetch_failed src msg)
  from crawl_fetch_failed [OF this] assms fetch_failed show ?thesis by auto
next
  case (parse_failed src html m)
  from crawl_parse_failed [OF this] assms parse_failed show ?thesis by auto
next
  case (extracted src html t ti sp1 co sp2 md sp3)
  from crawl_extracted [OF this] assms show ?thesis by auto
qed

text \<open>
  An instance: a fetched page whose article holds 120 characters is a success.
\<close>

theorem crawl_success_iff_witness:
  "\<not> isl (crawl_article (fixed_env (Response ''<html>'') (Inr article_page)) other_url)
   \<and> success (fst (projr (crawl_article (fixed_env (Response ''<html>'') (Inr article_page)) other_url)))
   \<and> content_length (fst (projr (crawl_article (fixed_env (Response ''<html>'') (Inr article_page)) other_url))) = 120"
proof -
  define x where "x = crawl_article (fixed_env (Response ''<html>'') (Inr article_page)) other_url"
  have r: "\<not> isl x" unfolding x_def by code_simp
  then have h: "crawl_article (fixed_env (Response ''<html>'') (Inr article_page)) other_url
      = Inr (fst (projr x), snd (projr x))"
    unfolding x_def by (simp add: sum.collapse(2))
  have n: "content_length (fst (projr x)) = 120" unfolding x_def by code_simp
  from crawl_success_iff [OF h]
  have "success (fst (projr x)) \<longleftrightarrow> content_length (fst (projr x)) > 100" by blast
  with n have s: "success (fst (projr x))" by simp
  from r s n show ?thesis unfolding x_def by blast
qed

text \<open>
  C2, as the code has it. The loop breaks on a text of more than 200 characters, not of
  at least 200: when the selectors before \<open>s\<close> end without a break and \<open>s\<close> yields a
  text longer than 200, the extractor returns exactly that text, looks up no further
  selector and makes no lookup of the second tier.
\<close>

theorem long_candidate_wins:
  assumes "selectors_of src = ss1 @ s # ss2"
    and "scan_selectors ss1 [] sp = (c0, sp1)" and "length c0 \<le> 200"
    and "try_selector s sp1 = (Some c, sp2)" and "length c > 200"
  shows "extract_content src sp = (c, sp2)
       \<and> lookups sp2 = lookups sp @ map Select_one (ss1 @ [s])"
proof -
  from assms(1) have "src \<noteq> Unknown" by (auto simp: selectors_of_def)
  then have e: "extract_content src sp = extract_with (ss1 @ s # ss2) sp"
    using assms(1) by (simp add: extract_content_known)
  have "scan_selectors (ss1 @ s # ss2) [] sp = scan_selectors (s # ss2) c0 sp1"
    using assms(2,3) by (rule scan_append)
  also have "\<dots> = (c, sp2)" using assms(4,5) by simp
  finally have "extract_with (ss1 @ s # ss2) sp = (c, sp2)"
    using assms(5) by (auto simp: extract_with_def main_fallback_def)
  moreover have "lookups sp2 = lookups sp @ map Select_one (ss1 @ [s])"
    using scan_lookups [OF assms(2,3)] try_selector_lookups [OF assms(4)] by simp
  ultimately show ?thesis using e by simp
qed

text \<open>
  An instance: the second selector of the list for \<open>southcn\<close> finds 201 characters.
\<close>

theorem long_candidate_wins_witness:
  "fst (extract_content Southcn (fresh long_page)) = filler 201
   \<and> lookups (snd (extract_content Southcn (fresh long_page))) =
       [Select_one (Sel (Some ''div'') (Some (Has_class ''article-content''))),
        Select_one (Sel (Some ''div'') (Some (Has_class ''content'')))]"
proof -
  define s1 where "s1 = Sel (Some ''div'') (Some (Has_class ''article-content''))"
  define s2 where "s2 = Sel (Some ''div'') (Some (Has_class ''content''))"
  define sp1 where "sp1 = snd (scan_selectors [s1] [] (fresh long_page))"
  define sp2 where "sp2 = snd (try_selector s2 sp1)"
  have h1: "selectors_of Southcn = [s1] @ s2 # drop 2 southcn_selectors"
    by (simp add: selectors_of_def southcn_selectors_def s1_def s2_def)
  have "fst (scan_selectors [s1] [] (fresh long_page)) = []"
    unfolding s1_def by code_simp
  then have h2: "scan_selectors [s1] [] (fresh long_page) = ([], sp1)"
    by (simp add: sp1_def prod_eq_iff)
  have h3: "length ([] :: string) \<le> 200" by simp
  have "fst (try_selector s2 sp1) = Some (filler 201)"
    unfolding s1_def s2_def sp1_def by code_simp
  then have h4: "try_selector s2 sp1 = (Some (filler 201), sp2)"
    by (simp add: sp2_def prod_eq_iff)
  have h5: "length (filler 201) > 200" by (simp add: filler_def)
  have l: "lookups (fresh long_page) = []" by (simp add: fresh_def)
  from long_candidate_wins [OF h1 h2 h3 h4 h5] l show ?thesis
    by (simp add: s1_def s2_def)
qed

text \<open>
  A candidate of exactly 200 characters does not end the scan: the later selectors are
  still looked up, the last of them replaces the text by a shorter one, and the second
  tier is evaluated.
\<close>

theorem boundary_candidate_not_final:
  "fst (try_selector (Sel (Some ''div'') (Some (Has_class ''article-content'')))
          (fresh boundary_page)) = Some (filler 200)
   \<and> length (filler 200) \<ge> 200
   \<and> fst (extract_content Southcn (fresh boundary_page)) = ''short''
   \<and> lookups (snd (extract_content Southcn (fresh boundary_page))) =
       map Select_one southcn_selectors @ map Find main_regions"
  by code_simp






text \<open>
  C5. When the fetch raises a timeout, \<open>crawl_article\<close> returns a result with
  \<open>success\<close> false and the error \<open>Request timeout\<close>, which contains \<open>timeout\<close>;
  title, content and metadata are as initialised, and the only call made is the fetch: no
  parse, no lookup on a soup.
\<close>

theorem crawl_timeout:
  assumes "http_get e u = Timeout" and "identify_source (ip_literal_ok e) u = Inr src"
  shows "crawl_article e u =
           Inr (\<lparr>url = u, success = False, source = src, title = [], content = [],
                 content_length = 0, metadata = Map.empty, error = Some ''Request timeout''\<rparr>,
                [Http_get u])
         \<and> str_contains ''timeout'' ''Request timeout''"
  using assms by (simp add: crawl_article_def fetch_url_def)

text \<open>
  An instance: a timeout on a URL of the second source.
\<close>

theorem crawl_timeout_witness:
  "crawl_article (fixed_env Timeout (Inr article_page)) ycwb_url =
     Inr (\<lparr>url = ycwb_url, success = False, source = Ycwb, title = [], content = [],
           content_length = 0, metadata = Map.empty, error = Some ''Request timeout''\<rparr>,
          [Http_get ycwb_url])"
proof -
  have h1: "http_get (fixed_env Timeout (Inr article_page)) ycwb_url = Timeout"
    by (simp add: fixed_env_def)
  have h2: "identify_source (ip_literal_ok (fixed_env Timeout (Inr article_page))) ycwb_url = Inr Ycwb"
    by code_simp
  from crawl_timeout [OF h1 h2] show ?thesis by simp
qed







text \<open>
  C8, as the code has it. The second tier of the three source-specific extractors looks for
  \<open>main\<close>, then \<open>article\<close>, then the \<open>div\<close> with id \<open>content\<close>, and uses the first
  present. The extractor for unknown sources looks for \<open>article\<close> first and keeps its text
  when that has at least 200 characters; otherwise it looks for \<open>main\<close>, then the
  \<open>div\<close> with id \<open>content\<close>, then the \<open>div\<close> of class \<open>content\<close>, and uses the first
  present, keeping the article's text when there is none.
\<close>

theorem region_search_order:
  "(src \<noteq> Unknown \<longrightarrow> scan_selectors (selectors_of src) [] sp = (c, sp1) \<longrightarrow> length c < 200 \<longrightarrow>
      extract_content src sp =
        (case first_match (Sel (Some ''main'') None) (tree sp1) of
           Some p \<Rightarrow> take_region p (logged sp1 [Find (Sel (Some ''main'') None)])
         | None \<Rightarrow>
        (case first_match (Sel (Some ''article'') None) (tree sp1) of
           Some p \<Rightarrow> take_region p (logged sp1 [Find (Sel (Some ''main'') None),
                                                  Find (Sel (Some ''article'') None)])
         | None \<Rightarrow>
        (case first_match (Sel (Some ''div'') (Some (Has_id ''content''))) (tree sp1) of
           Some p \<Rightarrow> take_region p (logged sp1 [Find (Sel (Some ''main'') None),
                                                  Find (Sel (Some ''article'') None),
                                                  Find (Sel (Some ''div'') (Some (Has_id ''content'')))])
         | None \<Rightarrow> (c, logged sp1 [Find (Sel (Some ''main'') None),
                                     Find (Sel (Some ''article'') None),
                                     Find (Sel (Some ''div'') (Some (Has_id ''content'')))])))))
   \<and> extract_content Unknown sp =
       (case (case first_match (Sel (Some ''article'') None) (tree sp) of
                None \<Rightarrow> ([], logged sp [Find (Sel (Some ''article'') None)])
              | Some p \<Rightarrow> take_region p (logged sp [Find (Sel (Some ''article'') None)])) of
          (a, sp2) \<Rightarrow>
            if 200 \<le> length a then (a, sp2)
            else
        (case first_match (Sel (Some ''main'') None) (tree sp2) of
           Some p \<Rightarrow> take_region p (logged sp2 [Find (Sel (Some ''main'') None)])
         | None \<Rightarrow>
        (case first_match (Sel (Some ''div'') (Some (Has_id ''content''))) (tree sp2) of
           Some p \<Rightarrow> take_region p (logged sp2 [Find (Sel (Some ''main'') None),
                                                  Find (Sel (Some ''div'') (Some (Has_id ''content'')))])
         | None \<Rightarrow>
        (case first_match (Sel (Some ''div'') (Some (Has_class ''content''))) (tree sp2) of
           Some p \<Rightarrow> take_region p (logged sp2 [Find (Sel (Some ''main'') None),
                                                  Find (Sel (Some ''div'') (Some (Has_id ''content''))),
                                                  Find (Sel (Some ''div'') (Some (Has_class ''content'')))])
         | None \<Rightarrow> (a, logged sp2 [Find (Sel (Some ''main'') None),
                                     Find (Sel (Some ''div'') (Some (Has_id ''content''))),
                                     Find (Sel (Some ''div'') (Some (Has_class ''content'')))])))))"
proof (intro conjI impI)
  assume "src \<noteq> Unknown" and "scan_selectors (selectors_of src) [] sp = (c, sp1)"
    and "length c < 200"
  then show "extract_content src sp =
        (case first_match (Sel (Some ''main'') None) (tree sp1) of
           Some p \<Rightarrow> take_region p (logged sp1 [Find (Sel (Some ''main'') None)])
         | None \<Rightarrow>
        (case first_match (Sel (Some ''article'') None) (tree sp1) of
           Some p \<Rightarrow> take_region p (logged sp1 [Find (Sel (Some ''main'') None),
                                                  Find (Sel (Some ''article'') None)])
         | None \<Rightarrow>
        (case first_match (Sel (Some ''div'') (Some (Has_id ''content''))) (tree sp1) of
           Some p \<Rightarrow> take_region p (logged sp1 [Find (Sel (Some ''main'') None),
                                                  Find (Sel (Some ''article'') None),
                                                  Find (Sel (Some ''div'') (Some (Has_id ''content'')))])
         | None \<Rightarrow> (c, logged sp1 [Find (Sel (Some ''main'') None),
                                     Find (Sel (Some ''article'') None),
                                     Find (Sel (Some ''div'') (Some (Has_id ''content'')))]))))"
    by (auto simp: extract_content_known extract_with_def main_fallback_def main_regions_def
        find_tag_def logged_def split: option.splits)
next
  show "extract_content Unknown sp =
       (case (case first_match (Sel (Some ''article'') None) (tree sp) of
                None \<Rightarrow> ([], logged sp [Find (Sel (Some ''article'') None)])
              | Some p \<Rightarrow> take_region p (logged sp [Find (Sel (Some ''article'') None)])) of
          (a, sp2) \<Rightarrow>
            if 200 \<le> length a then (a, sp2)
            else
        (case first_match (Sel (Some ''main'') None) (tree sp2) of
           Some p \<Rightarrow> take_region p (logged sp2 [Find (Sel (Some ''main'') None)])
         | None \<Rightarrow>
        (case first_match (Sel (Some ''div'') (Some (Has_id ''content''))) (tree sp2) of
           Some p \<Rightarrow> take_region p (logged sp2 [Find (Sel (Some ''main'') None),
                                                  Find (Sel (Some ''div'') (Some (Has_id ''content'')))])
         | None \<Rightarrow>
        (case first_match (Sel (Some ''div'') (Some (Has_class ''content''))) (tree sp2) of
           Some p \<Rightarrow> take_region p (logged sp2 [Find (Sel (Some ''main'') None),
                                                  Find (Sel (Some ''div'') (Some (Has_id ''content''))),
                                                  Find (Sel (Some ''div'') (Some (Has_class ''content'')))])
         | None \<Rightarrow> (a, logged sp2 [Find (Sel (Some ''main'') None),
                                     Find (Sel (Some ''div'') (Some (Has_id ''content''))),
                                     Find (Sel (Some ''div'') (Some (Has_class ''content'')))])))))"
    by (auto simp: extract_generic_def generic_regions_def find_tag_def
        logged_def not_le split: option.splits prod.splits)
qed

text \<open>
  An instance of each half: a known source whose candidates are short and whose page has a
  \<open>main\<close>, and an unknown source whose page has an article of 200 characters.
\<close>

theorem region_search_order_witness:
  "scan_selectors (selectors_of Southcn) [] (fresh short_page) =
     (''short'', snd (scan_selectors (selectors_of Southcn) [] (fresh short_page)))
   \<and> first_match (Sel (Some ''main'') None)
         (tree (snd (scan_selectors (selectors_of Southcn) [] (fresh short_page)))) = Some [0, 0, 1]
   \<and> extract_content Southcn (fresh short_page) =
       take_region [0, 0, 1]
         (logged (snd (scan_selectors (selectors_of Southcn) [] (fresh short_page)))
            [Find (Sel (Some ''main'') None)])
   \<and> fst (extract_content Unknown (fresh both_page)) = filler 200"
proof -
  define sp1 where "sp1 = snd (scan_selectors (selectors_of Southcn) [] (fresh short_page))"
  have h1: "Southcn \<noteq> Unknown" by simp
  have "fst (scan_selectors (selectors_of Southcn) [] (fresh short_page)) = ''short''"
    by code_simp
  then have h2: "scan_selectors (selectors_of Southcn) [] (fresh short_page) = (''short'', sp1)"
    by (simp add: sp1_def prod_eq_iff)
  have h3: "length ''short'' < 200" by simp
  have m: "first_match (Sel (Some ''main'') None) (tree sp1) = Some [0, 0, 1]"
    unfolding sp1_def by code_simp
  have a: "first_match (Sel (Some ''article'') None) (tree (fresh both_page)) = Some [0, 0, 1]"
    by code_simp
  have t: "fst (take_region [0, 0, 1] (logged (fresh both_page) [Find (Sel (Some ''article'') None)]))
      = filler 200"
    by code_simp
  have l: "length (filler 200) = 200" by (simp add: filler_def)
  note r = region_search_order [of Southcn "fresh short_page" "''short''" sp1]
  from r h1 h2 h3 m have 1: "extract_content Southcn (fresh short_page) =
      take_region [0, 0, 1] (logged sp1 [Find (Sel (Some ''main'') None)])"
    by simp
  note r' = region_search_order [of Southcn "fresh both_page" "[]" sp1, THEN conjunct2]
  from r' a t l have 2: "fst (extract_content Unknown (fresh both_page)) = filler 200"
    by (simp split: prod.splits)
  from h2 m 1 2 show ?thesis unfolding sp1_def by blast
qed

text \<open>
  A page with both a \<open>main\<close> and an \<open>article\<close>, from an unknown source: the article is
  taken and \<open>main\<close> is never looked up.
\<close>

theorem article_before_main:
  "first_match (Sel (Some ''main'') None) both_page = Some [0, 0, 0]
   \<and> first_match (Sel (Some ''article'') None) both_page = Some [0, 0, 1]
   \<and> extract_content Unknown (fresh both_page) =
       (filler 200, \<lparr>tree = both_page, lookups = [Find (Sel (Some ''article'') None)]\<rparr>)"
  by code_simp

text \<open>
  C9, as the code has it. When the fetched and parsed document holds none of the containers
  the extractor for the URL's source looks for (for an unknown source: no \<open>article\<close>, no
  \<open>main\<close>, no \<open>div\<close> with id or class \<open>content\<close>; for a known source also no tag
  that one of its selectors matches), the content is empty, \<open>success\<close> is false and the
  error is \<open>Extracted content too short (0 chars)\<close>.
\<close>

theorem nothing_found_too_short:
  assumes "identify_source (ip_literal_ok e) u = Inr src"
    and "http_get e u = Response html" and "html_parser e html = Inr t"
    and "\<forall>s \<in> set (regions_of src). first_match s t = None"
  shows "\<exists>r calls. crawl_article e u = Inr (r, calls) \<and> content r = [] \<and> \<not> success r
           \<and> error r = Some ''Extracted content too short (0 chars)''"
proof -
  obtain ti sp1 where 1: "extract_title \<lparr>tree = t, lookups = []\<rparr> = (ti, sp1)"
    by (cases "extract_title \<lparr>tree = t, lookups = []\<rparr>")
  obtain co sp2 where 2: "extract_content src sp1 = (co, sp2)"
    by (cases "extract_content src sp1")
  obtain md sp3 where 3: "extract_metadata sp2 u = (md, sp3)"
    by (cases "extract_metadata sp2 u")
  from extract_title_tree [OF 1] have "tree sp1 = t" by simp
  with assms(4) extract_nothing_found [of src sp1] 2 have co: "co = []" by simp
  have f: "fetch_url e u = (True, html)" using assms(2) by (simp add: fetch_url_def)
  from crawl_extracted [OF assms(1) f assms(3) 1 2 3] co show ?thesis
    by (simp add: str_of_nat_0)
qed

text \<open>
  An instance: a page with one paragraph, from an unknown source.
\<close>

theorem nothing_found_too_short_witness:
  "list_all (\<lambda>s. first_match s plain_page = None) (regions_of Unknown)
   \<and> (\<exists>r calls. crawl_article (fixed_env (Response ''<html>'') (Inr plain_page)) other_url
                    = Inr (r, calls)
         \<and> content r = [] \<and> \<not> success r
         \<and> error r = Some ''Extracted content too short (0 chars)'')"
proof -
  define e where "e = fixed_env (Response ''<html>'') (Inr plain_page)"
  have h1: "identify_source (ip_literal_ok e) other_url = Inr Unknown"
    unfolding e_def by code_simp
  have h2: "http_get e other_url = Response ''<html>''" by (simp add: e_def fixed_env_def)
  have h3: "html_parser e ''<html>'' = Inr plain_page" by (simp add: e_def fixed_env_def)
  have h4: "\<forall>s \<in> set (regions_of Unknown). first_match s plain_page = None" by code_simp
  from nothing_found_too_short [OF h1 h2 h3 h4] h4 show ?thesis
    unfolding e_def list_all_iff by blast
qed

text \<open>
  On that page the error is not the string \<open>content too short (0 chars)\<close>; and for a known
  source a page without \<open>article\<close>, \<open>main\<close> and content-identified container can
  still yield content, here through the selector \<open>div.text\<close>.
\<close>

theorem too_short_message:
  "first_match (Sel (Some ''article'') None) plain_page = None
   \<and> first_match (Sel (Some ''main'') None) plain_page = None
   \<and> first_match (Sel (Some ''div'') (Some (Has_id ''content''))) plain_page = None
   \<and> first_match (Sel (Some ''div'') (Some (Class_contains ''content''))) plain_page = None
   \<and> error (fst (projr (crawl_article (fixed_env (Response ''<html>'') (Inr plain_page)) other_url)))
       = Some ''Extracted content too short (0 chars)''
   \<and> ''Extracted content too short (0 chars)'' \<noteq> ''content too short (0 chars)''
   \<and> first_match (Sel (Some ''article'') None) text_div_page = None
   \<and> first_match (Sel (Some ''main'') None) text_div_page = None
   \<and> first_match (Sel (Some ''div'') (Some (Has_id ''content''))) text_div_page = None
   \<and> first_match (Sel (Some ''div'') (Some (Class_contains ''content''))) text_div_page = None
   \<and> content (fst (projr (crawl_article (fixed_env (Response ''<html>'') (Inr text_div_page)) southcn_url)))
       = filler 120
   \<and> success (fst (projr (crawl_article (fixed_env (Response ''<html>'') (Inr text_div_page)) southcn_url)))"
  by code_simp

text \<open>
  C10. When the fetch and the parse both succeed, the metadata of the result has exactly
  the keys \<open>author\<close>, \<open>publish_date\<close> and \<open>source_url\<close>, the last one holding the URL
  passed in; in every other result the metadata is empty.
\<close>

theorem crawl_metadata:
  assumes "crawl_article e u = Inr (r, calls)"
  shows "if (\<exists>html t. http_get e u = Response html \<and> html_parser e html = Inr t)
         then dom (metadata r) = {''author'', ''publish_date'', ''source_url''}
              \<and> metadata r ''source_url'' = Some u
         else metadata r = Map.empty"
proof (cases rule: crawl_cases [of e u])
  case (raises err)
  with assms show ?thesis by (simp add: crawl_raises)
next
  case (fetch_failed src msg)
  then have "\<not> (\<exists>html. http_get e u = Response html)"
    by (auto simp: fetch_url_def)
  with crawl_fetch_failed [OF fetch_failed] assms show ?thesis by auto
next
  case (parse_failed src html m)
  then have "\<not> (\<exists>h t. http_get e u = Response h \<and> html_parser e h = Inr t)"
    by (auto simp: fetch_url_ok_iff)
  with crawl_parse_failed [OF parse_failed] assms show ?thesis by auto
next
  case (extracted src html t ti sp1 co sp2 md sp3)
  then have ok: "\<exists>h t. http_get e u = Response h \<and> html_parser e h = Inr t"
    by (auto simp: fetch_url_ok_iff)
  from extract_metadata_keys [of sp2 u] extracted(6)
  have "dom md = {''author'', ''publish_date'', ''source_url''} \<and> md ''source_url'' = Some u"
    by simp
  with crawl_extracted [OF extracted] assms ok show ?thesis by auto
qed

text \<open>
  An instance: a fetched and parsed page.
\<close>

theorem crawl_metadata_witness:
  "dom (metadata (fst (projr (crawl_article (fixed_env (Response ''<html>'') (Inr article_page)) other_url))))
     = {''author'', ''publish_date'', ''source_url''}
   \<and> metadata (fst (projr (crawl_article (fixed_env (Response ''<html>'') (Inr article_page)) other_url)))
       ''source_url'' = Some other_url"
proof -
  define e where "e = fixed_env (Response ''<html>'') (Inr article_page)"
  define x where "x = crawl_article e other_url"
  have r: "\<not> isl x" unfolding x_def e_def by code_simp
  then have h: "crawl_article e other_url = Inr (fst (projr x), snd (projr x))"
    unfolding x_def by (simp add: sum.collapse(2))
  have ok: "\<exists>html t. http_get e other_url = Response html \<and> html_parser e html = Inr t"
    by (simp add: e_def fixed_env_def)
  from crawl_metadata [OF h] ok
  have "dom (metadata (fst (projr x))) = {''author'', ''publish_date'', ''source_url''}
      \<and> metadata (fst (projr x)) ''source_url'' = Some other_url"
    by (simp only: if_True)
  then show ?thesis unfolding x_def e_def .
qed

end
